theory Spec2Isabelle
  imports Main
begin

section \<open>Python values and exceptions\<close>

text \<open>
  The exceptions the modelled functions can raise.  A function that may raise returns
  \<open>pyerror + 'a\<close>, with \<open>Inl\<close> for the exception that leaves the function.
\<close>

datatype pyerror =
    IndexError
  | ValueError
  | TypeError
  | AttributeError
  | KeyError
  | AssertionError
  | UnparsableCondition
  | CroniterBadCronError

text \<open>
  Strings are taken over ASCII, which is what Azure resource ids, tag values and cron
  expressions are made of.  On ASCII, \<open>str.casefold\<close> lowers the letters A to Z and
  leaves every other character alone.
\<close>

definition casefold_char :: "char \<Rightarrow> char" where
  "casefold_char c =
     (case map_of (zip ''ABCDEFGHIJKLMNOPQRSTUVWXYZ'' ''abcdefghijklmnopqrstuvwxyz'') c of
        Some l \<Rightarrow> l
      | None \<Rightarrow> c)"

definition casefold :: "string \<Rightarrow> string" where
  "casefold s = map casefold_char s"

text \<open>\<open>s.startswith(p)\<close>\<close>

fun startswith :: "string \<Rightarrow> string \<Rightarrow> bool" where
  "startswith s [] = True"
| "startswith [] (p # ps) = False"
| "startswith (c # cs) (p # ps) = (c = p \<and> startswith cs ps)"

text \<open>\<open>s.split(sep)\<close> for a one-character separator: never empty, one more piece than separators.\<close>

fun split_on :: "char \<Rightarrow> string \<Rightarrow> string list" where
  "split_on sep [] = [[]]"
| "split_on sep (c # cs) =
     (if c = sep then [] # split_on sep cs
      else (case split_on sep cs of
              [] \<Rightarrow> [[c]]
            | w # ws \<Rightarrow> (c # w) # ws))"

text \<open>\<open>sep.join(parts)\<close>\<close>

fun join :: "string \<Rightarrow> string list \<Rightarrow> string" where
  "join sep [] = []"
| "join sep [p] = p"
| "join sep (p # q # ps) = p @ sep @ join sep (q # ps)"

text \<open>\<open>xs[i]\<close> for a non-negative index: IndexError out of range.\<close>

definition index :: "'a list \<Rightarrow> nat \<Rightarrow> pyerror + 'a" where
  "index xs i = (if i < length xs then Inr (xs ! i) else Inl IndexError)"

section \<open>Resource ids (azure\_helpers/util.py, helpers.py)\<close>

text \<open>
  \<open>get_resource_type\<close> is \<open>re.search(r"/providers/(.+?)/[^/]+$", resource_id)\<close>,
  group 1 casefolded.  \<open>lazy_group\<close> matches \<open>(.+?)/[^/]+$\<close> at the start of its
  second argument: the group grows one character at a time (never over a newline), and
  the first length after which a slash and a non-empty slash-free rest follow is taken.
  \<open>search_providers\<close> tries the start positions from left to right.
\<close>

fun lazy_group :: "string \<Rightarrow> string \<Rightarrow> string option" where
  "lazy_group acc [] = None"
| "lazy_group acc (c # cs) =
     (if acc \<noteq> [] \<and> c = CHR ''/'' \<and> cs \<noteq> [] \<and> CHR ''/'' \<notin> set cs then Some acc
      else if c = CHR 0x0A then None
      else lazy_group (acc @ [c]) cs)"

fun search_providers :: "string \<Rightarrow> string option" where
  "search_providers [] = None"
| "search_providers (c # cs) =
     (case (if startswith (c # cs) ''/providers/''
            then lazy_group [] (drop 11 (c # cs)) else None) of
        Some g \<Rightarrow> Some g
      | None \<Rightarrow> search_providers cs)"

definition get_resource_type :: "string \<Rightarrow> string option" where
  "get_resource_type resource_id = map_option casefold (search_providers resource_id)"

definition get_resource_group :: "string \<Rightarrow> pyerror + string" where
  "get_resource_group resource_id = index (split_on CHR ''/'' resource_id) 4"

definition get_sub_id :: "string \<Rightarrow> pyerror + string" where
  "get_sub_id resource_id = index (split_on CHR ''/'' resource_id) 2"

definition get_name :: "string \<Rightarrow> string" where
  "get_name resource_id = last (split_on CHR ''/'' resource_id)"

text \<open>The dict that \<open>decode_resource_id\<close> returns, with its four keys as fields.\<close>

record decoded_id =
  d_sub_id :: string
  d_resource_group :: string
  d_type :: string
  d_name :: string

definition decode_resource_id :: "string \<Rightarrow> pyerror + decoded_id" where
  "decode_resource_id resource_id =
     (let split = split_on CHR ''/'' resource_id in
      case index split 2 of Inl e \<Rightarrow> Inl e | Inr s2 \<Rightarrow>
     (case index split 4 of Inl e \<Rightarrow> Inl e | Inr s4 \<Rightarrow>
     (case index split 8 of Inl e \<Rightarrow> Inl e | Inr s8 \<Rightarrow>
        Inr \<lparr> d_sub_id = s2, d_resource_group = s4,
              d_type = join ''/'' (take 1 (drop 6 split)), d_name = s8 \<rparr>)))"

section \<open>Alert condition matcher (helpers.py)\<close>

text \<open>
  The values found in \<open>ResourceGraphItem.properties\<close> (\<open>Dict[str, Any]\<close>, parsed JSON):
  \<open>None\<close>, booleans, numbers (integers here), strings, lists and dicts.  A dict is an
  association list with distinct keys, read by \<open>map_of\<close>.
\<close>

datatype json = JNull | JBool bool | JNum int | JStr string | JArr "json list" | JObj "(string \<times> json) list"

text \<open>Python truth value of such a value (\<open>not field\<close>, \<open>not equals\<close>).\<close>

fun truthy :: "json \<Rightarrow> bool" where
  "truthy JNull = False"
| "truthy (JBool b) = b"
| "truthy (JNum n) = (n \<noteq> 0)"
| "truthy (JStr s) = (s \<noteq> [])"
| "truthy (JArr xs) = (xs \<noteq> [])"
| "truthy (JObj kv) = (kv \<noteq> [])"

text \<open>\<open>d.get(k, dflt)\<close> and \<open>d.keys()\<close>\<close>

definition dict_get :: "(string \<times> json) list \<Rightarrow> string \<Rightarrow> json \<Rightarrow> json" where
  "dict_get d k dflt = (case map_of d k of None \<Rightarrow> dflt | Some v \<Rightarrow> v)"

definition dict_keys :: "(string \<times> json) list \<Rightarrow> string list" where
  "dict_keys d = remdups (map fst d)"

text \<open>
  \<open>k in expr\<close> for a string \<open>k\<close>: key membership on a dict, substring test on a string,
  element test on a list, TypeError on the values that are not iterable.
\<close>

fun contains_str :: "string \<Rightarrow> string \<Rightarrow> bool" where
  "contains_str [] p = (p = [])"
| "contains_str (c # cs) p = (startswith (c # cs) p \<or> contains_str cs p)"

fun py_in :: "string \<Rightarrow> json \<Rightarrow> pyerror + bool" where
  "py_in k (JObj d) = Inr (k \<in> set (dict_keys d))"
| "py_in k (JStr s) = Inr (contains_str s k)"
| "py_in k (JArr xs) = Inr (JStr k \<in> set xs)"
| "py_in k JNull = Inl TypeError"
| "py_in k (JNum n) = Inl TypeError"
| "py_in k (JBool b) = Inl TypeError"

text \<open>\<open>expr[k]\<close> for a string \<open>k\<close>: only a dict can be indexed by a string.\<close>

fun py_getitem :: "json \<Rightarrow> string \<Rightarrow> pyerror + json" where
  "py_getitem (JObj d) k = (case map_of d k of None \<Rightarrow> Inl KeyError | Some v \<Rightarrow> Inr v)"
| "py_getitem e k = Inl TypeError"

text \<open>
  \<open>for sub_expr in v\<close>: the elements of a list, the characters of a string, the keys of a
  dict; TypeError otherwise.
\<close>

fun py_iter :: "json \<Rightarrow> pyerror + json list" where
  "py_iter (JArr xs) = Inr xs"
| "py_iter (JStr s) = Inr (map (\<lambda>c. JStr [c]) s)"
| "py_iter (JObj d) = Inr (map JStr (dict_keys d))"
| "py_iter e = Inl TypeError"

record ConditionEvalCriteria =
  crit_resource_group :: "string option"
  crit_resource_type :: "string option"
  crit_resource_id :: "string option"

text \<open>
  \<open>criteria.f.casefold() == equals if criteria.f else False\<close>, where \<open>equals\<close> has been
  casefolded already.
\<close>

definition field_matches :: "string option \<Rightarrow> string \<Rightarrow> bool" where
  "field_matches v equals = (case v of None \<Rightarrow> False | Some s \<Rightarrow> if s \<noteq> [] then casefold s = equals else False)"

definition eval_dict :: "(string \<times> json) list \<Rightarrow> ConditionEvalCriteria \<Rightarrow> pyerror + bool" where
  "eval_dict expr criteria =
     (let field = dict_get expr ''field'' JNull;
          equals = dict_get expr ''equals'' JNull
      in if length (dict_keys expr) \<noteq> 2 \<or> \<not> truthy field \<or> \<not> truthy equals
         then Inl UnparsableCondition
         else (case equals of
                 JStr eq \<Rightarrow>
                   (let equals = casefold eq
                    in if field = JStr ''resourceGroup''
                       then Inr (field_matches (crit_resource_group criteria) equals)
                       else if field = JStr ''resourceId''
                       then Inr (field_matches (crit_resource_id criteria) equals)
                       else if field = JStr ''resourceType''
                       then Inr (field_matches (crit_resource_type criteria) equals)
                       else Inr False)
               | _ \<Rightarrow> Inl AttributeError))"

text \<open>
  \<open>evaluate_condition\<close> calls itself on what iterating \<open>expr["allOf"]\<close> yields, which for a
  string or a dict are one-character strings or keys.  Its termination is measured by the
  nesting depth, where a string of at most one character has depth 0.
\<close>

definition sdepth :: "string \<Rightarrow> nat" where
  "sdepth s = (if length s \<le> 1 then 0 else 1)"

fun list_max :: "nat list \<Rightarrow> nat" where
  "list_max [] = 0"
| "list_max (n # ns) = max n (list_max ns)"

fun jdepth :: "json \<Rightarrow> nat" where
  "jdepth JNull = 0"
| "jdepth (JBool b) = 0"
| "jdepth (JNum n) = 0"
| "jdepth (JStr s) = sdepth s"
| "jdepth (JArr xs) = Suc (list_max (map jdepth xs))"
| "jdepth (JObj d) = Suc (list_max (map (\<lambda>p. max (sdepth (fst p)) (jdepth (snd p))) d))"

lemma list_max_ge: "n \<in> set ns \<Longrightarrow> n \<le> list_max ns"
  by (induction ns) auto

lemma list_max_less: "(\<And>n. n \<in> set ns \<Longrightarrow> n < m) \<Longrightarrow> 0 < m \<Longrightarrow> list_max ns < m"
  by (induction ns) auto

lemma jdepth_value: "(k, v) \<in> set d \<Longrightarrow> jdepth v < jdepth (JObj d)"
  using list_max_ge [of "max (sdepth k) (jdepth v)"
      "map (\<lambda>p. max (sdepth (fst p)) (jdepth (snd p))) d"]
  by force

lemma jdepth_key: "(k, v) \<in> set d \<Longrightarrow> sdepth k < jdepth (JObj d)"
  using list_max_ge [of "max (sdepth k) (jdepth v)"
      "map (\<lambda>p. max (sdepth (fst p)) (jdepth (snd p))) d"]
  by force

lemma jdepth_elem: "x \<in> set xs \<Longrightarrow> jdepth x < jdepth (JArr xs)"
  using list_max_ge [of "jdepth x" "map jdepth xs"] by force

lemma jdepth_iter:
  assumes "py_iter v = Inr subs" and "x \<in> set subs"
  shows "jdepth x \<le> jdepth v"
proof (cases v)
  case (JArr xs)
  then show ?thesis using assms jdepth_elem[of x xs] by auto
next
  case (JStr s)
  then show ?thesis using assms by (auto simp: sdepth_def)
next
  case (JObj d)
  then obtain k w where "x = JStr k" "(k, w) \<in> set d"
    using assms by (auto simp: dict_keys_def)
  then show ?thesis using JObj jdepth_key[of k w d] by (auto simp: less_imp_le)
qed (use assms in auto)

lemma jdepth_subs:
  assumes "py_getitem expr k = Inr v" and "py_iter v = Inr subs"
  shows "list_max (map jdepth subs) < jdepth expr"
proof -
  obtain d where e: "expr = JObj d" and m: "map_of d k = Some v"
    using assms(1) by (cases expr) (auto split: option.splits)
  have "(k, v) \<in> set d" using m by (rule map_of_SomeD)
  then have lt: "jdepth v < jdepth expr" using e jdepth_value by simp
  show ?thesis
  proof (rule list_max_less)
    fix n assume "n \<in> set (map jdepth subs)"
    then obtain x where "x \<in> set subs" "n = jdepth x" by auto
    then have "n \<le> jdepth v" using assms(2) jdepth_iter by blast
    then show "n < jdepth expr" using lt by simp
  next
    show "0 < jdepth expr" using lt by simp
  qed
qed

definition evaluate_condition_rank ::
  "json \<times> ConditionEvalCriteria + json list \<times> ConditionEvalCriteria + json list \<times> ConditionEvalCriteria
     \<Rightarrow> nat \<times> nat" where
  "evaluate_condition_rank a =
     (case a of
        Inl (e, c) \<Rightarrow> (jdepth e, 0)
      | Inr (Inl (xs, c)) \<Rightarrow> (list_max (map jdepth xs), Suc (length xs))
      | Inr (Inr (xs, c)) \<Rightarrow> (list_max (map jdepth xs), Suc (length xs)))"

text \<open>
  \<open>all(...)\<close> and \<open>any(...)\<close> over a generator stop at the first deciding element; an
  exception raised before that element leaves the function.
\<close>

function evaluate_condition :: "json \<Rightarrow> ConditionEvalCriteria \<Rightarrow> pyerror + bool"
  and all_conditions :: "json list \<Rightarrow> ConditionEvalCriteria \<Rightarrow> pyerror + bool"
  and any_conditions :: "json list \<Rightarrow> ConditionEvalCriteria \<Rightarrow> pyerror + bool"
where
  "evaluate_condition expr criteria =
     (case expr of
        JBool b \<Rightarrow> Inr b
      | _ \<Rightarrow>
       (case py_in ''allOf'' expr of
          Inl e \<Rightarrow> Inl e
        | Inr has_all \<Rightarrow>
            if has_all
            then (case py_getitem expr ''allOf'' of
                    Inl e \<Rightarrow> Inl e
                  | Inr v \<Rightarrow> (case py_iter v of
                                Inl e \<Rightarrow> Inl e
                              | Inr subs \<Rightarrow> all_conditions subs criteria))
            else (case py_in ''anyOf'' expr of
                    Inl e \<Rightarrow> Inl e
                  | Inr has_any \<Rightarrow>
                      if has_any
                      then (case py_getitem expr ''anyOf'' of
                              Inl e \<Rightarrow> Inl e
                            | Inr v \<Rightarrow> (case py_iter v of
                                          Inl e \<Rightarrow> Inl e
                                        | Inr subs \<Rightarrow> any_conditions subs criteria))
                      else (case expr of
                              JObj d \<Rightarrow> eval_dict d criteria
                            | _ \<Rightarrow> Inl UnparsableCondition))))"
| "all_conditions [] criteria = Inr True"
| "all_conditions (x # xs) criteria =
     (case evaluate_condition x criteria of
        Inl e \<Rightarrow> Inl e
      | Inr b \<Rightarrow> if b then all_conditions xs criteria else Inr False)"
| "any_conditions [] criteria = Inr False"
| "any_conditions (x # xs) criteria =
     (case evaluate_condition x criteria of
        Inl e \<Rightarrow> Inl e
      | Inr b \<Rightarrow> if b then Inr True else any_conditions xs criteria)"
  by pat_completeness auto

termination
proof (relation "inv_image (less_than <*lex*> less_than) evaluate_condition_rank")
  show "wf (inv_image (less_than <*lex*> less_than) evaluate_condition_rank)"
    by (intro wf_inv_image wf_lex_prod wf_less_than)
qed (auto simp: evaluate_condition_rank_def jdepth_subs simp del: py_getitem.simps jdepth.simps)

declare evaluate_condition.simps [simp del]

text \<open>
  An alert rule as the resource graph returns it.  Of \<open>ResourceGraphItem\<close> only \<open>id\<close> and
  \<open>properties\<close> are read by the matcher.
\<close>

record ResourceGraphItem =
  alert_id :: string
  properties :: "(string \<times> json) list"

text \<open>
  \<open>[resource_id.casefold().startswith(scope) for scope in scopes]\<close>: the list is built in
  full, and \<open>startswith\<close> raises TypeError on a scope that is not a string.
\<close>

fun scope_flags :: "string \<Rightarrow> json list \<Rightarrow> pyerror + bool list" where
  "scope_flags resource_id [] = Inr []"
| "scope_flags resource_id (JStr scope # scopes) =
     (case scope_flags resource_id scopes of
        Inl e \<Rightarrow> Inl e
      | Inr bs \<Rightarrow> Inr (startswith (casefold resource_id) scope # bs))"
| "scope_flags resource_id (other # scopes) = Inl TypeError"

definition scope_matches :: "string \<Rightarrow> ResourceGraphItem \<Rightarrow> pyerror + bool" where
  "scope_matches resource_id alert =
     (case py_iter (dict_get (properties alert) ''scopes'' (JArr [])) of
        Inl e \<Rightarrow> Inl e
      | Inr scopes \<Rightarrow>
          (case scope_flags resource_id scopes of
             Inl e \<Rightarrow> Inl e
           | Inr bs \<Rightarrow> Inr (True \<in> set bs)))"

text \<open>
  \<open>condition_matches\<close>: the criteria record is built before \<open>evaluate_condition\<close> is called,
  so \<open>resource_id.split("/")[4]\<close> can raise IndexError first; of the exceptions of the
  evaluation only UnparsableCondition is caught.
\<close>

definition condition_matches ::
  "string \<Rightarrow> string option \<Rightarrow> ResourceGraphItem \<Rightarrow> pyerror + bool" where
  "condition_matches resource_id resource_type alert =
     (case dict_get (properties alert) ''condition'' JNull of
        JNull \<Rightarrow> Inr True
      | expr \<Rightarrow>
          (case index (split_on CHR ''/'' resource_id) 4 of
             Inl e \<Rightarrow> Inl e
           | Inr rg \<Rightarrow>
               (case evaluate_condition expr
                       \<lparr> crit_resource_group = Some rg, crit_resource_type = resource_type,
                         crit_resource_id = Some resource_id \<rparr> of
                  Inl e \<Rightarrow> if e = UnparsableCondition then Inr False else Inl e
                | Inr b \<Rightarrow> Inr b)))"

text \<open>
  The list comprehension of \<open>find_matching_alert_ids\<close>: alerts in order,
  \<open>scope_matches(alert) and condition_matches(alert)\<close> with the condition evaluated only
  when the scope matches, and any exception ending the whole call.
\<close>

fun find_matching_alert_ids ::
  "ResourceGraphItem list \<Rightarrow> string \<Rightarrow> string option \<Rightarrow> pyerror + string list" where
  "find_matching_alert_ids [] resource_id resource_type = Inr []"
| "find_matching_alert_ids (alert # all_alerts) resource_id resource_type =
     (case scope_matches resource_id alert of
        Inl e \<Rightarrow> Inl e
      | Inr sm \<Rightarrow>
          (case (if sm then condition_matches resource_id resource_type alert else Inr False) of
             Inl e \<Rightarrow> Inl e
           | Inr cm \<Rightarrow>
               (case find_matching_alert_ids all_alerts resource_id resource_type of
                  Inl e \<Rightarrow> Inl e
                | Inr ids \<Rightarrow> Inr (if cm then alert_id alert # ids else ids))))"

text \<open>
  The call of the maintenance-event path (\<open>process_updatemgmt_event\<close>):
  \<open>find_matching_alert_ids(alerts, vm.id, details.get("type"))\<close> with
  \<open>details = decode_resource_id(resource.properties.get("resourceId"))\<close>.
\<close>

definition updatemgmt_alert_ids ::
  "ResourceGraphItem list \<Rightarrow> string \<Rightarrow> string \<Rightarrow> pyerror + string list" where
  "updatemgmt_alert_ids alerts maintenance_resource_id vm_id =
     (case decode_resource_id maintenance_resource_id of
        Inl e \<Rightarrow> Inl e
      | Inr details \<Rightarrow> find_matching_alert_ids alerts vm_id (Some (d_type details)))"

section \<open>Power actions and the resources they act on (azure\_helpers)\<close>

text \<open>
  \<open>ResourcePowerAction\<close> and its extension \<open>DeferredWaitPowerActionCheck\<close>, the two queue
  messages.  \<open>created_at\<close> is a timestamp; \<open>alert_ids\<close> and \<open>tag_text\<close> are optional.
\<close>

record ResourcePowerAction =
  pa_id :: string
  sub_type :: "string option"
  action :: string
  created_at :: int
  alert_ids :: "string list option"
  attempt_num :: int

record DeferredWaitPowerActionCheck = ResourcePowerAction +
  tag_text :: "string option"
  continuation_token :: string
  wait_retries :: int

text \<open>\<open>if event.alert_ids\<close>: neither \<open>None\<close> nor the empty list.\<close>

definition has_alert_ids :: "string list option \<Rightarrow> bool" where
  "has_alert_ids a = (case a of None \<Rightarrow> False | Some ids \<Rightarrow> ids \<noteq> [])"

text \<open>
  A resource as a manager's \<open>get\<close> returns it: the id, the power state (stored casefolded
  by the setter of \<open>AzureResource\<close>), the tag dict, and for a storage account whether SFTP
  is enabled.
\<close>

record AzureResource =
  res_id :: string
  power_state :: string
  tags :: "string \<rightharpoonup> string"
  is_sftp_enabled :: bool

datatype manager =
    AppGatewayManager
  | VMManager
  | PostgreSQLManager
  | StorageAccountSFTPManager

definition create_manager_by_type :: "string option \<Rightarrow> string option \<Rightarrow> pyerror + manager" where
  "create_manager_by_type resource_type sub_type' =
     (if resource_type = Some ''microsoft.network/applicationgateways'' then Inr AppGatewayManager
      else if resource_type = Some ''microsoft.compute/virtualmachines'' then Inr VMManager
      else if resource_type = Some ''microsoft.dbforpostgresql/flexibleservers''
      then Inr PostgreSQLManager
      else if resource_type = Some ''microsoft.storage/storageaccounts'' \<and> sub_type' = Some ''sftp''
      then Inr StorageAccountSFTPManager
      else Inl ValueError)"

text \<open>The pre-state predicates of the four resource classes, chosen by the manager.\<close>

definition is_running :: "manager \<Rightarrow> AzureResource \<Rightarrow> bool" where
  "is_running m r =
     (case m of
        StorageAccountSFTPManager \<Rightarrow> is_sftp_enabled r
      | _ \<Rightarrow> casefold (power_state r) \<in> set [''running'', ''starting''])"

definition in_stoppable_state :: "manager \<Rightarrow> AzureResource \<Rightarrow> bool" where
  "in_stoppable_state m r =
     (case m of
        PostgreSQLManager \<Rightarrow> casefold (power_state r) \<in> set [''ready'']
      | _ \<Rightarrow> is_running m r)"

definition in_startable_state :: "manager \<Rightarrow> AzureResource \<Rightarrow> bool" where
  "in_startable_state m r =
     (case m of
        PostgreSQLManager \<Rightarrow> casefold (power_state r) \<in> set [''stopped'']
      | _ \<Rightarrow> \<not> is_running m r)"

section \<open>Power action state machine (function\_app.py)\<close>

definition RESOURCE_TAGKEY_POWERMGMT :: string where
  "RESOURCE_TAGKEY_POWERMGMT = ''_POWERMGMT_STATUS_''"

definition RESOURCE_TAGVAL_START :: string where
  "RESOURCE_TAGVAL_START = ''Auto-started''"

definition RESOURCE_TAGVAL_STOP :: string where
  "RESOURCE_TAGVAL_STOP = ''Auto-stopped''"

definition RESOURCE_TAGVAL_STARTED_FOR_MAINTENANCE :: string where
  "RESOURCE_TAGVAL_STARTED_FOR_MAINTENANCE = ''In maintenance window (was stopped)''"

definition RESOURCE_TAGVAL_IN_MAINTENANCE_STOP_PENDING :: string where
  "RESOURCE_TAGVAL_IN_MAINTENANCE_STOP_PENDING = ''In maintenance window (stop pending)''"

definition RESOURCE_TAGVAL_IN_MAINTENANCE :: string where
  "RESOURCE_TAGVAL_IN_MAINTENANCE = ''In maintenance window''"

definition RESOURCE_TAGVAL_INFO_POST_MAINTENANCE :: string where
  "RESOURCE_TAGVAL_INFO_POST_MAINTENANCE = ''Maintenance window completed''"

definition RESOURCE_TAGVAL_STOP_POST_MAINTENANCE :: string where
  "RESOURCE_TAGVAL_STOP_POST_MAINTENANCE = ''Auto-stopped (post maintenance)''"

definition RESOURCE_TAGVALS_IN_MAINTENANCE_WINDOW :: "string list" where
  "RESOURCE_TAGVALS_IN_MAINTENANCE_WINDOW =
     [RESOURCE_TAGVAL_STARTED_FOR_MAINTENANCE,
      RESOURCE_TAGVAL_IN_MAINTENANCE_STOP_PENDING,
      RESOURCE_TAGVAL_IN_MAINTENANCE]"

definition RESOURCE_ACTION_START :: string where
  "RESOURCE_ACTION_START = ''start''"

definition RESOURCE_ACTION_START_PRE_UPDATES :: string where
  "RESOURCE_ACTION_START_PRE_UPDATES = ''start_for_updates''"

definition RESOURCE_ACTION_STOP :: string where
  "RESOURCE_ACTION_STOP = ''stop''"

definition RESOURCE_ACTION_STOP_POST_UPDATES :: string where
  "RESOURCE_ACTION_STOP_POST_UPDATES = ''stop_post_updates''"

definition DEFERRED_CHECK_MAX_RETRIES :: int where
  "DEFERRED_CHECK_MAX_RETRIES = 10"

text \<open>
  What a handler does to its collaborators, in the order of the calls:
  \<open>suppress_alerts(enabled)\<close>, \<open>add_tags_with_retry(.., create_powermgmt_tags(text))\<close>,
  \<open>start_with_retry\<close> and \<open>stop_with_retry\<close> with their reason, and
  \<open>enqueue_deferred_check_action\<close>.
\<close>

datatype effect =
    SuppressAlerts bool
  | AddTags "string option"
  | StartCall string
  | StopCall string
  | EnqueueDeferredCheck DeferredWaitPowerActionCheck

text \<open>\<open>resource.tags.get(RESOURCE_TAGKEY_POWERMGMT, "")\<close>\<close>

definition powermgmt_status :: "AzureResource \<Rightarrow> string" where
  "powermgmt_status r = (case tags r RESOURCE_TAGKEY_POWERMGMT of None \<Rightarrow> [] | Some v \<Rightarrow> v)"

text \<open>\<open>DeferredWaitPowerActionCheck(**check_args)\<close> once tag text and token are filled in.\<close>

definition deferred_check ::
  "ResourcePowerAction \<Rightarrow> string \<Rightarrow> string \<Rightarrow> DeferredWaitPowerActionCheck" where
  "deferred_check event text token =
     \<lparr> pa_id = pa_id event, sub_type = sub_type event, action = action event,
       created_at = created_at event, alert_ids = alert_ids event,
       attempt_num = attempt_num event,
       tag_text = Some text, continuation_token = token, wait_retries = 0 \<rparr>"

text \<open>
  The manager and the resource both come from the event's id; a malformed id or an
  unsupported resource type raises before any action.
\<close>

definition manager_of :: "string \<Rightarrow> string option \<Rightarrow> pyerror + manager" where
  "manager_of ident sub_type' =
     (case get_sub_id ident of
        Inl e \<Rightarrow> Inl e
      | Inr sub \<Rightarrow>
          (case create_manager_by_type (get_resource_type ident) sub_type' of
             Inl e \<Rightarrow> Inl e
           | Inr m \<Rightarrow>
               (case get_resource_group ident of
                  Inl e \<Rightarrow> Inl e
                | Inr rg \<Rightarrow> Inr m)))"

text \<open>
  \<open>handle_powermgmt_event_with_deferred_wait\<close>.  \<open>resource\<close> is what \<open>manager.get\<close> returns
  and \<open>token\<close> the continuation token a start or stop call returns.
\<close>

definition handle_powermgmt_event_with_deferred_wait ::
  "AzureResource \<Rightarrow> string \<Rightarrow> ResourcePowerAction \<Rightarrow> pyerror + effect list" where
  "handle_powermgmt_event_with_deferred_wait resource token event =
     (case manager_of (pa_id event) (sub_type event) of
        Inl e \<Rightarrow> Inl e
      | Inr m \<Rightarrow>
          if action event = RESOURCE_ACTION_START then
            (if in_startable_state m resource
             then Inr [StartCall ''scheduled'',
                       EnqueueDeferredCheck (deferred_check event RESOURCE_TAGVAL_START token)]
             else Inr [])
          else if action event = RESOURCE_ACTION_START_PRE_UPDATES then
            (if in_startable_state m resource
             then Inr [StartCall ''pre-maintenance window'',
                       EnqueueDeferredCheck
                         (deferred_check event RESOURCE_TAGVAL_STARTED_FOR_MAINTENANCE token)]
             else Inr [AddTags (Some RESOURCE_TAGVAL_IN_MAINTENANCE)])
          else if action event = RESOURCE_ACTION_STOP then
            Inr ((if has_alert_ids (alert_ids event) then [SuppressAlerts True] else []) @
              (if in_stoppable_state m resource then
                 (if powermgmt_status resource \<notin> set RESOURCE_TAGVALS_IN_MAINTENANCE_WINDOW then
                    (if get_resource_type (res_id resource)
                          = Some ''microsoft.dbforpostgresql/flexibleservers''
                     then [AddTags (Some RESOURCE_TAGVAL_STOP), StopCall ''scheduled'',
                           EnqueueDeferredCheck (deferred_check event [] token)]
                     else if get_resource_type (res_id resource)
                          = Some ''microsoft.network/applicationgateways''
                     then [StopCall ''scheduled'',
                           EnqueueDeferredCheck (deferred_check event [] token)]
                     else [StopCall ''scheduled'',
                           EnqueueDeferredCheck
                             (deferred_check event RESOURCE_TAGVAL_STOP token)])
                  else [AddTags (Some RESOURCE_TAGVAL_IN_MAINTENANCE_STOP_PENDING)])
               else []))
          else if action event = RESOURCE_ACTION_STOP_POST_UPDATES then
            Inr ((if has_alert_ids (alert_ids event) then [SuppressAlerts True] else []) @
              (if in_stoppable_state m resource
                  \<and> powermgmt_status resource
                      \<in> set [RESOURCE_TAGVAL_IN_MAINTENANCE_STOP_PENDING,
                              RESOURCE_TAGVAL_STARTED_FOR_MAINTENANCE]
               then [StopCall ''post-maintenance window'',
                     EnqueueDeferredCheck
                       (deferred_check event RESOURCE_TAGVAL_STOP_POST_MAINTENANCE token)]
               else [AddTags (Some RESOURCE_TAGVAL_INFO_POST_MAINTENANCE)]))
          else Inl AssertionError)"

text \<open>
  \<open>check_powermgmt_status\<close>.  \<open>reply\<close> is what polling the provider through
  \<open>manager.stop\<close> or \<open>manager.start\<close> with the continuation token gives: a status string, or
  the HttpResponseError that the handler turns into \<open>"failed"\<close>.  \<open>tags_ok\<close> is the truth
  value of what \<open>add_tags_with_retry\<close> returns.  The outcome holds the result that is
  logged, the calls made, and the event with its retry counter as the handler leaves it.
\<close>

datatype poll_reply = Status string | HttpResponseError

record check_outcome =
  co_result :: string
  co_effects :: "effect list"
  co_event :: DeferredWaitPowerActionCheck

definition check_powermgmt_status ::
  "poll_reply \<Rightarrow> bool \<Rightarrow> DeferredWaitPowerActionCheck \<Rightarrow> pyerror + check_outcome" where
  "check_powermgmt_status reply tags_ok event =
     (case manager_of (pa_id event) (sub_type event) of
        Inl e \<Rightarrow> Inl e
      | Inr m \<Rightarrow>
          if action event = RESOURCE_ACTION_STOP
               \<or> action event = RESOURCE_ACTION_STOP_POST_UPDATES
               \<or> action event = RESOURCE_ACTION_START
               \<or> action event = RESOURCE_ACTION_START_PRE_UPDATES
          then
            (let polled = (case reply of Status s \<Rightarrow> s | HttpResponseError \<Rightarrow> ''failed'');
                 writes = (polled = ''succeeded'' \<and> tag_text event \<noteq> Some []);
                 tagging = (if writes then [AddTags (tag_text event)] else []);
                 result = (if writes \<and> \<not> tags_ok then ''inprogress'' else polled)
             in if result = ''succeeded'' then
                  Inr \<lparr> co_result = result,
                        co_effects = tagging @
                          (if action event = RESOURCE_ACTION_START \<and> has_alert_ids (alert_ids event)
                           then [SuppressAlerts False] else []),
                        co_event = event \<rparr>
                else if result = ''inprogress'' then
                  (let event' = event \<lparr> wait_retries := wait_retries event + 1 \<rparr>
                   in if wait_retries event' < DEFERRED_CHECK_MAX_RETRIES
                      then Inr \<lparr> co_result = result,
                                 co_effects = tagging @ [EnqueueDeferredCheck event'],
                                 co_event = event' \<rparr>
                      else Inr \<lparr> co_result = ''timeout'', co_effects = tagging,
                                 co_event = event' \<rparr>)
                else Inr \<lparr> co_result = result, co_effects = tagging, co_event = event \<rparr>)
          else Inl ValueError)"

text \<open>
  The deferred-check queue: a handler's \<open>enqueue_deferred_check_action\<close> puts the event back,
  and the next delivery evaluates it against the provider's next answer.  The run ends
  when an evaluation does not re-enqueue, or raises.
\<close>

fun requeued :: "effect list \<Rightarrow> DeferredWaitPowerActionCheck option" where
  "requeued [] = None"
| "requeued (EnqueueDeferredCheck ev # es) = Some ev"
| "requeued (other # es) = requeued es"

fun deferred_check_run ::
  "(poll_reply \<times> bool) list \<Rightarrow> DeferredWaitPowerActionCheck \<Rightarrow> (pyerror + check_outcome) list" where
  "deferred_check_run [] event = []"
| "deferred_check_run ((reply, tags_ok) # polls) event =
     (case check_powermgmt_status reply tags_ok event of
        Inl e \<Rightarrow> [Inl e]
      | Inr out \<Rightarrow>
          Inr out # (case requeued (co_effects out) of
                       None \<Rightarrow> []
                     | Some event' \<Rightarrow> deferred_check_run polls event'))"

text \<open>What one evaluation shows: the logged result, whether it re-enqueued, the counter.\<close>

definition poll_summary :: "pyerror + check_outcome \<Rightarrow> (string \<times> bool \<times> int) option" where
  "poll_summary r =
     (case r of
        Inl e \<Rightarrow> None
      | Inr out \<Rightarrow>
          Some (co_result out, requeued (co_effects out) \<noteq> None, wait_retries (co_event out)))"

text \<open>
  An event that \<open>check_powermgmt_status\<close> can evaluate without raising: its id names a
  supported resource type and its action is one of the four.
\<close>

definition pollable :: "DeferredWaitPowerActionCheck \<Rightarrow> bool" where
  "pollable event =
     ((case manager_of (pa_id event) (sub_type event) of Inl e \<Rightarrow> False | Inr m \<Rightarrow> True)
      \<and> action event \<in> set [RESOURCE_ACTION_STOP, RESOURCE_ACTION_STOP_POST_UPDATES,
                              RESOURCE_ACTION_START, RESOURCE_ACTION_START_PRE_UPDATES])"

section \<open>Schedule evaluator: weekday time grids (helpers.py)\<close>

text \<open>
  The regular expressions that \<open>TIME_SCHEDULE_PATTERN\<close> is built from: a character class,
  alternation, sequence and the optional \<open>?\<close>.  \<open>rmatch r s\<close> lists what is left of \<open>s\<close>
  after each way of matching \<open>r\<close> at its start, first alternative first.
\<close>

datatype rexp =
    Chars string
  | Alt rexp rexp
  | Seq rexp rexp
  | Opt rexp

fun rmatch :: "rexp \<Rightarrow> string \<Rightarrow> string list" where
  "rmatch (Chars cs) [] = []"
| "rmatch (Chars cs) (c # s) = (if c \<in> set cs then [s] else [])"
| "rmatch (Alt r1 r2) s = rmatch r1 s @ rmatch r2 s"
| "rmatch (Seq r1 r2) s = concat (map (rmatch r2) (rmatch r1 s))"
| "rmatch (Opt r) s = rmatch r s @ [s]"

text \<open>\<open>r{n}\<close> followed by \<open>tail\<close>\<close>

fun repeat :: "nat \<Rightarrow> rexp \<Rightarrow> rexp \<Rightarrow> rexp" where
  "repeat 0 r tail = tail"
| "repeat (Suc n) r tail = Seq r (repeat n r tail)"

text \<open>
  One slot is \<open>([\-\*]|0?[0-9]|1[0-9]|2[0-3])(\:([0-5][05]))?\<close>; the pattern is six slots
  each followed by \<open>[,/]\<close>, then a seventh slot.
\<close>

definition slot_pattern :: rexp where
  "slot_pattern =
     Seq (Alt (Chars ''-*'')
           (Alt (Seq (Opt (Chars ''0'')) (Chars ''0123456789''))
             (Alt (Seq (Chars ''1'') (Chars ''0123456789''))
                  (Seq (Chars ''2'') (Chars ''0123'')))))
         (Opt (Seq (Chars '':'') (Seq (Chars ''012345'') (Chars ''05''))))"

definition TIME_SCHEDULE_PATTERN :: rexp where
  "TIME_SCHEDULE_PATTERN = repeat 6 (Seq slot_pattern (Chars '',/'')) slot_pattern"

text \<open>
  \<open>re.match\<close> of a pattern that ends in \<open>$\<close>: some way of matching leaves nothing, or
  only a final newline.
\<close>

definition re_match_to_end :: "rexp \<Rightarrow> string \<Rightarrow> bool" where
  "re_match_to_end r s = (\<exists>rest \<in> set (rmatch r s). rest = [] \<or> rest = [CHR 0x0A])"

definition is_valid_schedule_value :: "string \<Rightarrow> bool" where
  "is_valid_schedule_value v = re_match_to_end TIME_SCHEDULE_PATTERN v"

text \<open>
  \<open>int(s)\<close> on a string: surrounding whitespace is dropped, a sign is allowed, and the
  digits may be grouped by single underscores; anything else is a ValueError.
\<close>

definition is_space :: "char \<Rightarrow> bool" where
  "is_space c = (c \<in> set [CHR 0x09, CHR 0x0A, CHR 0x0B, CHR 0x0C, CHR 0x0D,
                            CHR 0x1C, CHR 0x1D, CHR 0x1E, CHR 0x1F, CHR 0x20])"

definition strip :: "string \<Rightarrow> string" where
  "strip s = rev (dropWhile is_space (rev (dropWhile is_space s)))"

definition digit_value :: "char \<Rightarrow> nat option" where
  "digit_value c = map_of (zip ''0123456789'' [0 ..< 10]) c"

fun digits_value :: "nat \<Rightarrow> string \<Rightarrow> nat option" where
  "digits_value acc [] = Some acc"
| "digits_value acc (c # cs) =
     (case digit_value c of
        None \<Rightarrow> None
      | Some d \<Rightarrow> digits_value (10 * acc + d) cs)"

definition py_int :: "string \<Rightarrow> pyerror + int" where
  "py_int s =
     (let t = strip s;
          negative = (t \<noteq> [] \<and> hd t = CHR ''-'');
          body = (if t \<noteq> [] \<and> (hd t = CHR ''-'' \<or> hd t = CHR ''+'') then tl t else t);
          groups = split_on CHR ''_'' body
      in if [] \<in> set groups then Inl ValueError
         else (case digits_value 0 (concat groups) of
                 None \<Rightarrow> Inl ValueError
               | Some n \<Rightarrow> Inr (if negative then - int n else int n)))"

text \<open>Decimal formatting of an integer, as an f-string does it.\<close>

fun str_nat :: "nat \<Rightarrow> string" where
  "str_nat n = (if n < 10 then [''0123456789'' ! n]
                else str_nat (n div 10) @ [''0123456789'' ! (n mod 10)])"

definition str_int :: "int \<Rightarrow> string" where
  "str_int i = (if i < 0 then CHR ''-'' # str_nat (nat (- i)) else str_nat (nat i))"

text \<open>
  \<open>convert_time_schedule_to_cron\<close>, with the current weekday (Monday = 0) as an argument
  in place of the clock.  \<open>None\<close> is returned for a string the pattern rejects and for a
  slot \<open>-\<close> or \<open>*\<close>; indexing the comma-separated pieces and \<open>int\<close> can raise.
\<close>

definition convert_time_schedule_to_cron :: "string \<Rightarrow> nat \<Rightarrow> pyerror + string option" where
  "convert_time_schedule_to_cron schedule_string current_day =
     (if \<not> re_match_to_end TIME_SCHEDULE_PATTERN schedule_string then Inr None
      else
        (case index (split_on CHR '','' schedule_string) current_day of
           Inl e \<Rightarrow> Inl e
         | Inr day_time \<Rightarrow>
             if day_time = ''-'' \<or> day_time = ''*'' then Inr None
             else
               (let parts = split_on CHR '':'' day_time
                in case py_int (hd parts) of
                     Inl e \<Rightarrow> Inl e
                   | Inr hour \<Rightarrow>
                       (case (if length parts > 1 then py_int (parts ! 1) else Inr 0) of
                          Inl e \<Rightarrow> Inl e
                        | Inr minute \<Rightarrow>
                            Inr (Some (str_int minute @ '' '' @ str_int hour @ '' * * ''
                                       @ str_nat ((current_day + 1) mod 7)))))))"

text \<open>
  The slots that name a time of day or no action: \<open>-\<close>, \<open>*\<close>, or an hour the pattern
  accepts (\<open>0\<close> to \<open>23\<close>, or \<open>00\<close> to \<open>09\<close>), alone or followed by a colon and one of the
  minutes \<open>00\<close>, \<open>05\<close>, ..., \<open>55\<close>.  The table lists each such time slot with its hour and
  minute; \<open>slot_reads_as\<close> says that the conversion reads a slot as that hour and minute and
  that the slot pattern accepts it.
\<close>

definition hour_table :: "(string \<times> nat) list" where
  "hour_table = map (\<lambda>n. (str_nat n, n)) [0 ..< 24]
                @ map (\<lambda>n. (CHR ''0'' # str_nat n, n)) [0 ..< 10]"

definition minute_table :: "(string \<times> nat) list" where
  "minute_table =
     ([], 0) # concat (map (\<lambda>a. map (\<lambda>b. (CHR '':'' # str_nat a @ str_nat (5 * b), 10 * a + 5 * b))
                                   [0 ..< 2]) [0 ..< 6])"

definition time_table :: "(string \<times> nat \<times> nat) list" where
  "time_table =
     concat (map (\<lambda>(hs, h). map (\<lambda>(ms, m). (hs @ ms, h, m)) minute_table) hour_table)"

definition slot_reads_as :: "string \<times> nat \<times> nat \<Rightarrow> bool" where
  "slot_reads_as e =
     (case e of (s, h, m) \<Rightarrow>
        (let parts = split_on CHR '':'' s
         in py_int (hd parts) = Inr (int h)
            \<and> (if length parts > 1 then py_int (parts ! 1) else Inr 0) = Inr (int m)
            \<and> s \<noteq> ''-'' \<and> s \<noteq> ''*'' \<and> CHR '','' \<notin> set s
            \<and> [] \<in> set (rmatch slot_pattern s)))"

definition plain_slot :: "string \<Rightarrow> bool" where
  "plain_slot s = (s = ''-'' \<or> s = ''*'' \<or> s \<in> fst ` set time_table)"

section \<open>Schedule evaluator: the fire decision (helpers.py)\<close>






section \<open>Example inputs\<close>

definition example_vm_id :: string where
  "example_vm_id =
     ''/subscriptions/s1/resourceGroups/rg1/providers/Microsoft.Compute/virtualMachines/vm1''"

definition example_check :: DeferredWaitPowerActionCheck where
  "example_check =
     \<lparr> pa_id = example_vm_id,
       sub_type = None, action = ''stop'', created_at = 0, alert_ids = Some [],
       attempt_num = 1, tag_text = Some ''Auto-stopped'', continuation_token = ''tok'',
       wait_retries = 0 \<rparr>"

definition example_action :: "string \<Rightarrow> ResourcePowerAction" where
  "example_action a =
     \<lparr> pa_id = example_vm_id, sub_type = None, action = a, created_at = 0,
       alert_ids = Some [''alert1''], attempt_num = 1 \<rparr>"

definition example_resource :: "string \<Rightarrow> AzureResource" where
  "example_resource status =
     \<lparr> res_id = example_vm_id, power_state = ''running'',
       tags = [RESOURCE_TAGKEY_POWERMGMT \<mapsto> status], is_sftp_enabled = False \<rparr>"



definition example_alert :: "string \<Rightarrow> (string \<times> json) list \<Rightarrow> ResourceGraphItem" where
  "example_alert ident props = \<lparr> alert_id = ident, properties = props \<rparr>"

section \<open>Properties of the resource id helpers\<close>

lemma split_on_nonempty: "split_on sep s \<noteq> []"
  by (induction s) (auto split: list.splits)

lemma split_on_no_sep: "w \<in> set (split_on sep s) \<Longrightarrow> sep \<notin> set w"
proof (induction s arbitrary: w)
  case Nil
  then show ?case by simp
next
  case (Cons c cs)
  show ?case
  proof (cases "c = sep")
    case True
    with Cons show ?thesis by auto
  next
    case False
    obtain v vs where sp: "split_on sep cs = v # vs"
      using split_on_nonempty[of sep cs] by (cases "split_on sep cs") auto
    with False Cons.prems have "w = c # v \<or> w \<in> set vs" by auto
    then show ?thesis
    proof
      assume "w = c # v"
      moreover have "sep \<notin> set v" using Cons.IH[of v] sp by simp
      ultimately show ?thesis using False by auto
    next
      assume "w \<in> set vs"
      then show ?thesis using Cons.IH[of w] sp by simp
    qed
  qed
qed

text \<open>
  C10.  For a resource id with at least nine slash-separated segments,
  \<open>decode_resource_id\<close> succeeds and its \<open>type\<close> is segment 6 alone, the provider
  namespace, which contains no slash.  For a virtual-machine id, where \<open>get_resource_type\<close>
  gives \<open>microsoft.compute/virtualmachines\<close>, the two differ.  The maintenance-event path
  passes this segment to \<open>find_matching_alert_ids\<close> as the resource type.
\<close>

theorem decode_resource_id_type_is_namespace:
  assumes "9 \<le> length (split_on CHR ''/'' resource_id)"
  shows "\<exists>d. decode_resource_id resource_id = Inr d
           \<and> d_type d = split_on CHR ''/'' resource_id ! 6
           \<and> CHR ''/'' \<notin> set (d_type d)
           \<and> (get_resource_type resource_id = Some ''microsoft.compute/virtualmachines''
                \<longrightarrow> Some (d_type d) \<noteq> get_resource_type resource_id)
           \<and> updatemgmt_alert_ids alerts resource_id vm_id
               = find_matching_alert_ids alerts vm_id (Some (split_on CHR ''/'' resource_id ! 6))"
proof -
  let ?split = "split_on CHR ''/'' resource_id"
  let ?d = "\<lparr> d_sub_id = ?split ! 2, d_resource_group = ?split ! 4,
              d_type = ?split ! 6, d_name = ?split ! 8 \<rparr>"
  have "drop 6 ?split = ?split ! 6 # drop 7 ?split"
    using assms Cons_nth_drop_Suc [of 6 ?split] by simp
  then have tk: "join ''/'' (take 1 (drop 6 ?split)) = ?split ! 6" by simp
  have dec: "decode_resource_id resource_id = Inr ?d"
    using assms tk by (simp add: decode_resource_id_def index_def Let_def)
  have "?split ! 6 \<in> set ?split" using assms by simp
  then have ns: "CHR ''/'' \<notin> set (?split ! 6)" by (rule split_on_no_sep)
  have vm: "get_resource_type resource_id = Some ''microsoft.compute/virtualmachines''
              \<longrightarrow> Some (?split ! 6) \<noteq> get_resource_type resource_id"
    using ns by auto
  have upd: "updatemgmt_alert_ids alerts resource_id vm_id
               = find_matching_alert_ids alerts vm_id (Some (?split ! 6))"
    using dec by (simp add: updatemgmt_alert_ids_def)
  show ?thesis
    using dec ns vm upd by (intro exI [of _ ?d]) simp
qed

theorem decode_resource_id_type_is_namespace_witness:
  "9 \<le> length (split_on CHR ''/'' example_vm_id)
   \<and> get_resource_type example_vm_id = Some ''microsoft.compute/virtualmachines''
   \<and> (\<exists>d. decode_resource_id example_vm_id = Inr d \<and> d_type d = ''Microsoft.Compute''
          \<and> Some (d_type d) \<noteq> get_resource_type example_vm_id)"
proof -
  have len: "9 \<le> length (split_on CHR ''/'' example_vm_id)"
    unfolding example_vm_id_def by simp
  have grt: "get_resource_type example_vm_id = Some ''microsoft.compute/virtualmachines''"
    unfolding example_vm_id_def by code_simp
  have seg: "split_on CHR ''/'' example_vm_id ! 6 = ''Microsoft.Compute''"
    unfolding example_vm_id_def by simp
  from decode_resource_id_type_is_namespace [OF len, of "[]" "example_vm_id"]
  show ?thesis using len grt seg by auto
qed

section \<open>Properties of the power action state machine\<close>

lemma example_check_pollable: "pollable example_check"
  unfolding pollable_def example_check_def by code_simp

lemma example_manager: "manager_of example_vm_id None = Inr VMManager"
  by code_simp

lemmas action_defs = RESOURCE_ACTION_START_def RESOURCE_ACTION_START_PRE_UPDATES_def
  RESOURCE_ACTION_STOP_def RESOURCE_ACTION_STOP_POST_UPDATES_def

lemmas tagval_defs = RESOURCE_TAGVAL_START_def RESOURCE_TAGVAL_STOP_def
  RESOURCE_TAGVAL_STARTED_FOR_MAINTENANCE_def RESOURCE_TAGVAL_IN_MAINTENANCE_STOP_PENDING_def
  RESOURCE_TAGVAL_IN_MAINTENANCE_def RESOURCE_TAGVAL_INFO_POST_MAINTENANCE_def
  RESOURCE_TAGVAL_STOP_POST_MAINTENANCE_def RESOURCE_TAGVALS_IN_MAINTENANCE_WINDOW_def

lemma example_action_manager:
  "manager_of (pa_id (example_action a)) (sub_type (example_action a)) = Inr VMManager"
  by (simp add: example_action_def example_manager)

lemma example_resource_stoppable: "in_stoppable_state VMManager (example_resource status)"
  by (simp add: in_stoppable_state_def is_running_def example_resource_def casefold_def
      casefold_char_def)

lemma pollable_wait_retries [simp]: "pollable (ev\<lparr>wait_retries := k\<rparr>) = pollable ev"
  by (simp add: pollable_def)

lemma check_inprogress:
  assumes "pollable ev"
  shows "check_powermgmt_status (Status ''inprogress'') ok ev =
           Inr (if wait_retries ev + 1 < DEFERRED_CHECK_MAX_RETRIES
                then \<lparr> co_result = ''inprogress'',
                       co_effects = [EnqueueDeferredCheck (ev\<lparr>wait_retries := wait_retries ev + 1\<rparr>)],
                       co_event = ev\<lparr>wait_retries := wait_retries ev + 1\<rparr> \<rparr>
                else \<lparr> co_result = ''timeout'', co_effects = [],
                       co_event = ev\<lparr>wait_retries := wait_retries ev + 1\<rparr> \<rparr>)"
  using assms
  by (auto simp: pollable_def check_powermgmt_status_def Let_def split: sum.splits)

lemma run_all_inprogress:
  assumes "pollable ev" and "wait_retries ev = 9 - int d" and "d < length polls"
    and "\<forall>p\<in>set polls. fst p = Status ''inprogress''"
  shows "map poll_summary (deferred_check_run polls ev)
           = map (\<lambda>j. Some (''inprogress'', True, j)) [10 - int d..9]
             @ [Some (''timeout'', False, 10)]"
  using assms
proof (induction d arbitrary: ev polls)
  case 0
  then obtain ok ps where polls: "polls = (Status ''inprogress'', ok) # ps"
    by (cases polls) (auto simp: prod_eq_iff)
  show ?case
    using 0 polls
    by (simp add: check_inprogress DEFERRED_CHECK_MAX_RETRIES_def poll_summary_def)
next
  case (Suc d)
  then obtain ok ps where polls: "polls = (Status ''inprogress'', ok) # ps"
    by (cases polls) (auto simp: prod_eq_iff)
  let ?ev = "ev\<lparr>wait_retries := wait_retries ev + 1\<rparr>"
  have step: "check_powermgmt_status (Status ''inprogress'') ok ev =
                Inr \<lparr> co_result = ''inprogress'', co_effects = [EnqueueDeferredCheck ?ev],
                      co_event = ?ev \<rparr>"
    using Suc.prems by (simp add: check_inprogress DEFERRED_CHECK_MAX_RETRIES_def)
  have rest: "map poll_summary (deferred_check_run ps ?ev)
                = map (\<lambda>j. Some (''inprogress'', True, j)) [10 - int d..9]
                  @ [Some (''timeout'', False, 10)]"
    using Suc.prems polls by (intro Suc.IH) auto
  have up: "[10 - int (Suc d)..9] = (9 - int d) # [10 - int d..9]"
    using upto_rec1 [of "9 - int d" 9] by (simp add: algebra_simps)
  have w: "wait_retries ev + 1 = 9 - int d" using Suc.prems(2) by simp
  have "map poll_summary (deferred_check_run polls ev)
          = Some (''inprogress'', True, wait_retries ev + 1)
            # map poll_summary (deferred_check_run ps ?ev)"
    by (simp add: polls step poll_summary_def)
  also have "\<dots> = Some (''inprogress'', True, 9 - int d)
                    # (map (\<lambda>j. Some (''inprogress'', True, j)) [10 - int d..9]
                       @ [Some (''timeout'', False, 10)])"
    by (subst rest) (simp only: w)
  also have "\<dots> = map (\<lambda>j. Some (''inprogress'', True, j)) [10 - int (Suc d)..9]
                    @ [Some (''timeout'', False, 10)]"
    by (simp only: up list.map append_Cons)
  finally show ?case .
qed

text \<open>
  C2, as the code has it.  A deferred check whose retry counter starts at 0 and whose
  polls all return in-progress is evaluated ten times: the first nine evaluations log
  \<open>inprogress\<close> and re-enqueue with the counter at 1 to 9, and the tenth logs the terminal
  \<open>timeout\<close> with the counter at 10 and does not re-enqueue.  On any in-progress poll the
  check is re-enqueued exactly when the incremented counter is below the bound of 10.
\<close>

theorem deferred_check_times_out_on_tenth_poll:
  assumes "pollable ev" and "wait_retries ev = 0" and "10 \<le> length polls"
    and "\<forall>p\<in>set polls. fst p = Status ''inprogress''"
  shows "map poll_summary (deferred_check_run polls ev)
           = map (\<lambda>j. Some (''inprogress'', True, j)) [1..9] @ [Some (''timeout'', False, 10)]
         \<and> (\<forall>ev' ok. pollable ev' \<longrightarrow>
               (\<exists>out. check_powermgmt_status (Status ''inprogress'') ok ev' = Inr out
                  \<and> (requeued (co_effects out) \<noteq> None)
                      = (wait_retries ev' + 1 < DEFERRED_CHECK_MAX_RETRIES)))"
proof
  show "map poll_summary (deferred_check_run polls ev)
           = map (\<lambda>j. Some (''inprogress'', True, j)) [1..9] @ [Some (''timeout'', False, 10)]"
    using run_all_inprogress [of ev 9 polls] assms by simp
next
  show "\<forall>ev' ok. pollable ev' \<longrightarrow>
               (\<exists>out. check_powermgmt_status (Status ''inprogress'') ok ev' = Inr out
                  \<and> (requeued (co_effects out) \<noteq> None)
                      = (wait_retries ev' + 1 < DEFERRED_CHECK_MAX_RETRIES))"
    by (simp add: check_inprogress)
qed

theorem deferred_check_times_out_on_tenth_poll_witness:
  "pollable example_check \<and> wait_retries example_check = 0
   \<and> map poll_summary
        (deferred_check_run (replicate 12 (Status ''inprogress'', True)) example_check)
      = [Some (''inprogress'', True, 1), Some (''inprogress'', True, 2),
         Some (''inprogress'', True, 3), Some (''inprogress'', True, 4),
         Some (''inprogress'', True, 5), Some (''inprogress'', True, 6),
         Some (''inprogress'', True, 7), Some (''inprogress'', True, 8),
         Some (''inprogress'', True, 9), Some (''timeout'', False, 10)]"
proof -
  have p: "pollable example_check" by (rule example_check_pollable)
  have w: "wait_retries example_check = 0" by (simp add: example_check_def)
  have l: "10 \<le> length (replicate 12 (Status ''inprogress'', True))" by simp
  have a: "\<forall>p\<in>set (replicate 12 (Status ''inprogress'', True)). fst p = Status ''inprogress''"
    by simp
  have u: "[1..9] = [1, 2, 3, 4, 5, 6, 7, 8, 9 :: int]" by code_simp
  from deferred_check_times_out_on_tenth_poll [OF p w l a]
  show ?thesis using p w by (simp add: u)
qed

text \<open>
  C2 as stated fails: with eleven in-progress answers available there are only ten
  evaluations, and it is the tenth that yields \<open>timeout\<close>; there is no eleventh.
\<close>

theorem eleventh_evaluation_counterexample:
  "length (deferred_check_run (replicate 11 (Status ''inprogress'', True)) example_check) = 10
   \<and> map poll_summary
        (deferred_check_run (replicate 11 (Status ''inprogress'', True)) example_check) ! 9
      = Some (''timeout'', False, 10)"
  by code_simp

text \<open>
  C7, as the code has it.  When the poll returns succeeded, a tag text is pending and
  writing the tag fails, the evaluation goes on as an in-progress poll: the counter is
  incremented, and the check is re-enqueued with result \<open>inprogress\<close> while the incremented
  counter is below 10, and ends with \<open>timeout\<close> and no re-enqueue otherwise.  In every
  evaluation, alerts are re-enabled exactly when the final result is succeeded and the
  action is \<open>start\<close> with correlated alert ids.
\<close>

theorem tag_write_failure_counts_as_wait:
  assumes "pollable ev" and "tag_text ev \<noteq> Some []"
  shows "check_powermgmt_status (Status ''succeeded'') False ev =
           Inr (if wait_retries ev + 1 < DEFERRED_CHECK_MAX_RETRIES
                then \<lparr> co_result = ''inprogress'',
                       co_effects = [AddTags (tag_text ev),
                          EnqueueDeferredCheck (ev\<lparr>wait_retries := wait_retries ev + 1\<rparr>)],
                       co_event = ev\<lparr>wait_retries := wait_retries ev + 1\<rparr> \<rparr>
                else \<lparr> co_result = ''timeout'', co_effects = [AddTags (tag_text ev)],
                       co_event = ev\<lparr>wait_retries := wait_retries ev + 1\<rparr> \<rparr>)
         \<and> (\<forall>reply ok out. check_powermgmt_status reply ok ev = Inr out \<longrightarrow>
               (SuppressAlerts False \<in> set (co_effects out))
                 = (co_result out = ''succeeded'' \<and> action ev = RESOURCE_ACTION_START
                    \<and> has_alert_ids (alert_ids ev)))"
proof
  show "check_powermgmt_status (Status ''succeeded'') False ev =
           Inr (if wait_retries ev + 1 < DEFERRED_CHECK_MAX_RETRIES
                then \<lparr> co_result = ''inprogress'',
                       co_effects = [AddTags (tag_text ev),
                          EnqueueDeferredCheck (ev\<lparr>wait_retries := wait_retries ev + 1\<rparr>)],
                       co_event = ev\<lparr>wait_retries := wait_retries ev + 1\<rparr> \<rparr>
                else \<lparr> co_result = ''timeout'', co_effects = [AddTags (tag_text ev)],
                       co_event = ev\<lparr>wait_retries := wait_retries ev + 1\<rparr> \<rparr>)"
    using assms
    by (auto simp: pollable_def check_powermgmt_status_def Let_def split: sum.splits)
next
  show "\<forall>reply ok out. check_powermgmt_status reply ok ev = Inr out \<longrightarrow>
               (SuppressAlerts False \<in> set (co_effects out))
                 = (co_result out = ''succeeded'' \<and> action ev = RESOURCE_ACTION_START
                    \<and> has_alert_ids (alert_ids ev))"
    by (auto simp: check_powermgmt_status_def Let_def split: sum.splits if_splits)
qed

theorem tag_write_failure_counts_as_wait_witness:
  "pollable example_check \<and> tag_text example_check \<noteq> Some []
   \<and> poll_summary (check_powermgmt_status (Status ''succeeded'') False example_check)
       = Some (''inprogress'', True, 1)"
proof -
  have p: "pollable example_check" by (rule example_check_pollable)
  have t: "tag_text example_check \<noteq> Some []" by (simp add: example_check_def)
  from tag_write_failure_counts_as_wait [OF p t]
  show ?thesis using p t
    by (simp add: poll_summary_def DEFERRED_CHECK_MAX_RETRIES_def example_check_def)
qed

text \<open>
  C7 as stated fails at the bound: after nine in-progress polls, a succeeded poll whose
  tag write fails ends in \<open>timeout\<close> and is not re-enqueued.
\<close>

theorem tag_write_failure_at_bound_counterexample:
  "poll_summary (check_powermgmt_status (Status ''succeeded'') False
      (example_check\<lparr>wait_retries := 9\<rparr>)) = Some (''timeout'', False, 10)"
  by code_simp

text \<open>
  C5.  A \<open>stop\<close> action on a resource in a stoppable pre-state: when the status tag is one
  of the three maintenance-window values, no stop call is made and the resource is tagged
  "stop pending"; a stop call is made exactly when the status tag is not one of them.
\<close>

theorem stop_deferred_in_maintenance_window:
  assumes "manager_of (pa_id event) (sub_type event) = Inr m"
    and "action event = RESOURCE_ACTION_STOP"
    and "in_stoppable_state m resource"
  shows "\<exists>effs. handle_powermgmt_event_with_deferred_wait resource token event = Inr effs
           \<and> (powermgmt_status resource \<in> set RESOURCE_TAGVALS_IN_MAINTENANCE_WINDOW \<longrightarrow>
                (\<forall>reason. StopCall reason \<notin> set effs)
                \<and> effs = (if has_alert_ids (alert_ids event) then [SuppressAlerts True] else [])
                         @ [AddTags (Some RESOURCE_TAGVAL_IN_MAINTENANCE_STOP_PENDING)])
           \<and> ((\<exists>reason. StopCall reason \<in> set effs)
                = (powermgmt_status resource \<notin> set RESOURCE_TAGVALS_IN_MAINTENANCE_WINDOW))"
  using assms
  by (auto simp: handle_powermgmt_event_with_deferred_wait_def action_defs)

theorem stop_deferred_in_maintenance_window_witness:
  "manager_of (pa_id (example_action ''stop'')) (sub_type (example_action ''stop''))
     = Inr VMManager
   \<and> action (example_action ''stop'') = RESOURCE_ACTION_STOP
   \<and> in_stoppable_state VMManager (example_resource ''In maintenance window'')
   \<and> powermgmt_status (example_resource ''In maintenance window'')
        \<in> set RESOURCE_TAGVALS_IN_MAINTENANCE_WINDOW
   \<and> handle_powermgmt_event_with_deferred_wait (example_resource ''In maintenance window'')
        ''tok'' (example_action ''stop'')
      = Inr [SuppressAlerts True, AddTags (Some ''In maintenance window (stop pending)'')]"
proof -
  have m: "manager_of (pa_id (example_action ''stop'')) (sub_type (example_action ''stop''))
             = Inr VMManager"
    by (rule example_action_manager)
  have a: "action (example_action ''stop'') = RESOURCE_ACTION_STOP"
    by (simp add: example_action_def RESOURCE_ACTION_STOP_def)
  have s: "in_stoppable_state VMManager (example_resource ''In maintenance window'')"
    by (rule example_resource_stoppable)
  have w: "powermgmt_status (example_resource ''In maintenance window'')
             \<in> set RESOURCE_TAGVALS_IN_MAINTENANCE_WINDOW"
    by (simp add: powermgmt_status_def example_resource_def tagval_defs)
  have h: "has_alert_ids (alert_ids (example_action ''stop''))"
    by (simp add: has_alert_ids_def example_action_def)
  from stop_deferred_in_maintenance_window [OF m a s, of "''tok''"]
  show ?thesis using m a s w h
    by (auto simp: RESOURCE_TAGVAL_IN_MAINTENANCE_STOP_PENDING_def)
qed

text \<open>
  C6.  A \<open>stop_post_updates\<close> action: a stop call is made if and only if the resource is in
  a stoppable pre-state and its status tag is "stop pending" or "started for maintenance";
  in every other case no stop is made and the only tag written is the informational
  "maintenance window completed".
\<close>

theorem stop_post_updates_needs_maintenance_tag:
  assumes "manager_of (pa_id event) (sub_type event) = Inr m"
    and "action event = RESOURCE_ACTION_STOP_POST_UPDATES"
  shows "\<exists>effs. handle_powermgmt_event_with_deferred_wait resource token event = Inr effs
           \<and> ((\<exists>reason. StopCall reason \<in> set effs)
                = (in_stoppable_state m resource
                   \<and> powermgmt_status resource
                       \<in> set [RESOURCE_TAGVAL_IN_MAINTENANCE_STOP_PENDING,
                               RESOURCE_TAGVAL_STARTED_FOR_MAINTENANCE]))
           \<and> (\<not> (in_stoppable_state m resource
                   \<and> powermgmt_status resource
                       \<in> set [RESOURCE_TAGVAL_IN_MAINTENANCE_STOP_PENDING,
                               RESOURCE_TAGVAL_STARTED_FOR_MAINTENANCE]) \<longrightarrow>
                effs = (if has_alert_ids (alert_ids event) then [SuppressAlerts True] else [])
                       @ [AddTags (Some RESOURCE_TAGVAL_INFO_POST_MAINTENANCE)])"
  using assms
  by (auto simp: handle_powermgmt_event_with_deferred_wait_def action_defs)

theorem stop_post_updates_needs_maintenance_tag_witness:
  "manager_of (pa_id (example_action ''stop_post_updates''))
      (sub_type (example_action ''stop_post_updates'')) = Inr VMManager
   \<and> action (example_action ''stop_post_updates'') = RESOURCE_ACTION_STOP_POST_UPDATES
   \<and> (\<exists>effs. handle_powermgmt_event_with_deferred_wait
                 (example_resource ''In maintenance window'') ''tok''
                 (example_action ''stop_post_updates'') = Inr effs
          \<and> (\<forall>reason. StopCall reason \<notin> set effs)
          \<and> effs = [SuppressAlerts True, AddTags (Some ''Maintenance window completed'')])
   \<and> (\<exists>effs reason. handle_powermgmt_event_with_deferred_wait
                 (example_resource ''In maintenance window (stop pending)'') ''tok''
                 (example_action ''stop_post_updates'') = Inr effs
          \<and> StopCall reason \<in> set effs)"
proof -
  let ?ev = "example_action ''stop_post_updates''"
  have m: "manager_of (pa_id ?ev) (sub_type ?ev) = Inr VMManager"
    by (rule example_action_manager)
  have a: "action ?ev = RESOURCE_ACTION_STOP_POST_UPDATES"
    by (simp add: example_action_def RESOURCE_ACTION_STOP_POST_UPDATES_def)
  have s: "\<And>status. in_stoppable_state VMManager (example_resource status)"
    by (rule example_resource_stoppable)
  have n: "powermgmt_status (example_resource ''In maintenance window'')
             \<notin> set [RESOURCE_TAGVAL_IN_MAINTENANCE_STOP_PENDING,
                     RESOURCE_TAGVAL_STARTED_FOR_MAINTENANCE]"
    by (simp add: powermgmt_status_def example_resource_def tagval_defs)
  have y: "powermgmt_status (example_resource ''In maintenance window (stop pending)'')
             \<in> set [RESOURCE_TAGVAL_IN_MAINTENANCE_STOP_PENDING,
                     RESOURCE_TAGVAL_STARTED_FOR_MAINTENANCE]"
    by (simp add: powermgmt_status_def example_resource_def tagval_defs)
  have h: "has_alert_ids (alert_ids ?ev)"
    by (simp add: has_alert_ids_def example_action_def)
  from stop_post_updates_needs_maintenance_tag
         [OF m a, of "example_resource ''In maintenance window''" "''tok''"]
  have first: "\<exists>effs. handle_powermgmt_event_with_deferred_wait
                 (example_resource ''In maintenance window'') ''tok'' ?ev = Inr effs
          \<and> (\<forall>reason. StopCall reason \<notin> set effs)
          \<and> effs = [SuppressAlerts True, AddTags (Some ''Maintenance window completed'')]"
    using n h by (auto simp: RESOURCE_TAGVAL_INFO_POST_MAINTENANCE_def)
  from stop_post_updates_needs_maintenance_tag
         [OF m a, of "example_resource ''In maintenance window (stop pending)''" "''tok''"]
  have second: "\<exists>effs reason. handle_powermgmt_event_with_deferred_wait
                 (example_resource ''In maintenance window (stop pending)'') ''tok'' ?ev = Inr effs
          \<and> StopCall reason \<in> set effs"
    using y s by auto
  show ?thesis using m a first second by blast
qed

section \<open>Properties of the fire decision\<close>





section \<open>Properties of the alert condition matcher\<close>

text \<open>
  A condition that is a dict without \<open>allOf\<close> and \<open>anyOf\<close> and is not a leaf with exactly the
  two non-empty keys \<open>field\<close> and \<open>equals\<close> makes the alert a non-match.
\<close>

lemma unparsable_dict_is_non_match:
  assumes "dict_get (properties alert) ''condition'' JNull = JObj d"
    and "''allOf'' \<notin> set (dict_keys d)" and "''anyOf'' \<notin> set (dict_keys d)"
    and "length (dict_keys d) \<noteq> 2 \<or> \<not> truthy (dict_get d ''field'' JNull)
         \<or> \<not> truthy (dict_get d ''equals'' JNull)"
    and "5 \<le> length (split_on CHR ''/'' resource_id)"
  shows "condition_matches resource_id resource_type alert = Inr False"
  using assms
  by (auto simp: condition_matches_def index_def evaluate_condition.simps eval_dict_def Let_def)

text \<open>
  When no alert raises, the result is the ids, in order, of the alerts whose scope and
  condition both match; and for scopes that are lower-case strings the scope test is the
  case-insensitive prefix test.
\<close>

lemma find_matching_alert_ids_filter:
  assumes "\<forall>a\<in>set all_alerts. scope_matches resource_id a = Inr (sm a)
             \<and> (sm a \<longrightarrow> condition_matches resource_id resource_type a = Inr (cm a))"
  shows "find_matching_alert_ids all_alerts resource_id resource_type
           = Inr (map alert_id (filter (\<lambda>a. sm a \<and> cm a) all_alerts))"
  using assms by (induction all_alerts) auto

lemma scope_flags_strings:
  "scope_flags resource_id (map JStr scopes)
     = Inr (map (startswith (casefold resource_id)) scopes)"
  by (induction scopes) auto

lemma scope_matches_lower_case:
  assumes "dict_get (properties alert) ''scopes'' (JArr []) = JArr (map JStr scopes)"
    and "\<forall>s\<in>set scopes. casefold s = s"
  shows "scope_matches resource_id alert
           = Inr (\<exists>s\<in>set scopes. startswith (casefold resource_id) (casefold s))"
  using assms by (auto simp: scope_matches_def scope_flags_strings)

text \<open>
  C8 at a scope written in mixed case.  The resource id starts with the scope when case
  is ignored and the alert has no condition, yet its id is not returned: only the resource
  id is casefolded before \<open>startswith\<close>.  With the scope in lower case it is returned.
\<close>

theorem mixed_case_scope_is_not_matched:
  "startswith (casefold example_vm_id) (casefold ''/subscriptions/s1/resourceGroups/rg1'')
   \<and> find_matching_alert_ids
        [example_alert ''a1'' [(''scopes'', JArr [JStr ''/subscriptions/s1/resourceGroups/rg1''])]]
        example_vm_id (get_resource_type example_vm_id) = Inr []
   \<and> find_matching_alert_ids
        [example_alert ''a1'' [(''scopes'', JArr [JStr ''/subscriptions/s1/resourcegroups/rg1''])]]
        example_vm_id (get_resource_type example_vm_id) = Inr [''a1'']"
  unfolding example_alert_def example_vm_id_def by code_simp

text \<open>
  C9 at a condition that is a number.  \<open>"allOf" in expr\<close> raises TypeError before the
  function reaches its \<open>raise UnparsableCondition\<close>; \<open>condition_matches\<close> catches only
  UnparsableCondition, so the call ends with TypeError and the second alert is never
  looked at.  A malformed dict in the same place is a non-match and the second alert is
  returned.
\<close>

theorem numeric_condition_raises:
  "find_matching_alert_ids
     [example_alert ''a1'' [(''scopes'', JArr [JStr ''/subscriptions/s1'']), (''condition'', JNum 5)],
      example_alert ''a2'' [(''scopes'', JArr [JStr ''/subscriptions/s1''])]]
     example_vm_id (get_resource_type example_vm_id) = Inl TypeError
   \<and> find_matching_alert_ids
     [example_alert ''a1'' [(''scopes'', JArr [JStr ''/subscriptions/s1'']),
                            (''condition'', JObj [(''field'', JStr ''resourceGroup'')])],
      example_alert ''a2'' [(''scopes'', JArr [JStr ''/subscriptions/s1''])]]
     example_vm_id (get_resource_type example_vm_id) = Inr [''a2'']"
  unfolding example_alert_def example_vm_id_def by code_simp

section \<open>Properties of the weekday time grid\<close>

lemma time_table_reads: "list_all slot_reads_as time_table"
  by code_simp

lemma time_table_entry:
  assumes "(s, h, m) \<in> set time_table"
  shows "slot_reads_as (s, h, m)"
  using assms time_table_reads by (auto simp: list_all_iff)

lemma rmatch_append: "x \<in> set (rmatch r a) \<Longrightarrow> x @ s \<in> set (rmatch r (a @ s))"
proof (induction r arbitrary: a x)
  case (Chars cs)
  then show ?case by (cases a) (auto split: if_splits)
next
  case (Alt r1 r2)
  then show ?case by auto
next
  case (Seq r1 r2)
  then obtain y where "y \<in> set (rmatch r1 a)" "x \<in> set (rmatch r2 y)" by auto
  then have "y @ s \<in> set (rmatch r1 (a @ s))" "x @ s \<in> set (rmatch r2 (y @ s))"
    using Seq.IH by auto
  then show ?case by auto
next
  case (Opt r)
  then show ?case by auto
qed

lemma plain_slot_matches: "plain_slot s \<Longrightarrow> [] \<in> set (rmatch slot_pattern s)"
proof -
  assume "plain_slot s"
  then consider "s = ''-''" | "s = ''*''" | h m where "(s, h, m) \<in> set time_table"
    by (auto simp: plain_slot_def)
  then show ?thesis
  proof cases
    case 1 then show ?thesis by (simp add: slot_pattern_def)
  next
    case 2 then show ?thesis by (simp add: slot_pattern_def)
  next
    case 3 then show ?thesis using time_table_entry by (fastforce simp: slot_reads_as_def Let_def)
  qed
qed

lemma plain_slot_no_comma: "plain_slot s \<Longrightarrow> CHR '','' \<notin> set s"
proof -
  assume "plain_slot s"
  then consider "s = ''-''" | "s = ''*''" | h m where "(s, h, m) \<in> set time_table"
    by (auto simp: plain_slot_def)
  then show ?thesis
  proof cases
    case 3 then show ?thesis using time_table_entry by (fastforce simp: slot_reads_as_def Let_def)
  qed auto
qed

lemma grid_matches:
  "length slots = Suc n \<Longrightarrow> \<forall>s\<in>set slots. plain_slot s \<Longrightarrow>
     [] \<in> set (rmatch (repeat n (Seq slot_pattern (Chars '',/'')) slot_pattern) (join '','' slots))"
proof (induction n arbitrary: slots)
  case 0
  then obtain s where "slots = [s]" by (cases slots) auto
  then show ?case using 0 plain_slot_matches by simp
next
  case (Suc n)
  then obtain s rest where sl: "slots = s # rest" and len: "length rest = Suc n"
    by (cases slots) auto
  then obtain q qs where rest: "rest = q # qs" by (cases rest) auto
  let ?J = "join '','' rest"
  have "[] \<in> set (rmatch slot_pattern s)" using Suc.prems sl plain_slot_matches by simp
  then have "[] @ (CHR '','' # ?J) \<in> set (rmatch slot_pattern (s @ (CHR '','' # ?J)))"
    by (rule rmatch_append)
  then have a: "?J \<in> set (rmatch (Seq slot_pattern (Chars '',/'')) (s @ CHR '','' # ?J))"
    by force
  have b: "[] \<in> set (rmatch (repeat n (Seq slot_pattern (Chars '',/'')) slot_pattern) ?J)"
    using Suc.IH [OF len] Suc.prems sl by simp
  have "join '','' slots = s @ CHR '','' # ?J" by (simp add: sl rest)
  then show ?case using a b by force
qed

lemma split_on_plain: "sep \<notin> set a \<Longrightarrow> split_on sep a = [a]"
  by (induction a) auto

lemma split_on_append: "sep \<notin> set a \<Longrightarrow> split_on sep (a @ sep # b) = a # split_on sep b"
  by (induction a) auto

lemma split_on_join:
  "slots \<noteq> [] \<Longrightarrow> \<forall>s\<in>set slots. CHR '','' \<notin> set s \<Longrightarrow>
     split_on CHR '','' (join '','' slots) = slots"
proof (induction slots)
  case Nil
  then show ?case by simp
next
  case (Cons p ps)
  show ?case
  proof (cases ps)
    case Nil
    then show ?thesis using Cons.prems by (simp add: split_on_plain)
  next
    case (Cons q qs)
    have "join '','' (p # ps) = p @ CHR '','' # join '','' ps" by (simp add: Cons)
    moreover have "split_on CHR '','' (join '','' ps) = ps"
      using Cons.IH Cons.prems Cons by simp
    ultimately show ?thesis using Cons.prems by (simp add: split_on_append)
  qed
qed

lemma time_table_keys:
  "s \<in> fst ` set time_table \<Longrightarrow> \<exists>h m. map_of time_table s = Some (h, m)"
  by (metis map_of_eq_None_iff not_Some_eq surj_pair)

text \<open>
  On a grid of seven plain slots separated by commas, on weekday \<open>d\<close>: no cron for \<open>-\<close> and
  \<open>*\<close>, and otherwise the cron \<open>minute hour * * ((d+1) mod 7)\<close> of the slot's hour and minute.
\<close>

lemma plain_grid_to_cron:
  assumes "length slots = 7" and "\<forall>s\<in>set slots. plain_slot s" and "d < 7"
  shows "convert_time_schedule_to_cron (join '','' slots) d =
           Inr (case map_of time_table (slots ! d) of
                  None \<Rightarrow> None
                | Some (h, m) \<Rightarrow>
                    Some (str_nat m @ '' '' @ str_nat h @ '' * * '' @ str_nat ((d + 1) mod 7)))"
proof -
  let ?g = "join '','' slots"
  have "[] \<in> set (rmatch TIME_SCHEDULE_PATTERN ?g)"
    unfolding TIME_SCHEDULE_PATTERN_def using assms(1,2) by (intro grid_matches) auto
  then have valid: "re_match_to_end TIME_SCHEDULE_PATTERN ?g"
    by (auto simp: re_match_to_end_def)
  have "slots \<noteq> []" using assms(1) by auto
  then have "split_on CHR '','' ?g = slots"
    using assms(2) plain_slot_no_comma by (intro split_on_join) auto
  then have day: "index (split_on CHR '','' ?g) d = Inr (slots ! d)"
    using assms(1,3) by (simp add: index_def)
  have "plain_slot (slots ! d)" using assms by simp
  then consider "slots ! d = ''-''" | "slots ! d = ''*''"
    | h m where "map_of time_table (slots ! d) = Some (h, m)"
    unfolding plain_slot_def using time_table_keys by blast
  then show ?thesis
  proof cases
    case 1
    have "map_of time_table ''-'' = None"
    proof (rule ccontr)
      assume "map_of time_table ''-'' \<noteq> None"
      then obtain h m where "(''-'', h, m) \<in> set time_table" by (auto dest: map_of_SomeD)
      then show False using time_table_entry by (fastforce simp: slot_reads_as_def Let_def)
    qed
    then show ?thesis using 1 valid day by (simp add: convert_time_schedule_to_cron_def)
  next
    case 2
    have "map_of time_table ''*'' = None"
    proof (rule ccontr)
      assume "map_of time_table ''*'' \<noteq> None"
      then obtain h m where "(''*'', h, m) \<in> set time_table" by (auto dest: map_of_SomeD)
      then show False using time_table_entry by (fastforce simp: slot_reads_as_def Let_def)
    qed
    then show ?thesis using 2 valid day by (simp add: convert_time_schedule_to_cron_def)
  next
    case 3
    then have "(slots ! d, h, m) \<in> set time_table" by (rule map_of_SomeD)
    then have r: "slot_reads_as (slots ! d, h, m)" by (rule time_table_entry)
    then show ?thesis
      using 3 valid day
      by (auto simp: convert_time_schedule_to_cron_def slot_reads_as_def Let_def str_int_def)
  qed
qed

text \<open>
  C4 at a grid separated by slashes.  The pattern accepts \<open>/\<close> between slots, but the
  string is split at commas only: on Tuesday the index is out of range, on Monday the
  whole string goes to \<open>int\<close>.  A slot \<open>-:30\<close>, which the pattern also accepts, reaches
  \<open>int("-")\<close>.  On a comma-separated grid with plain slots the cron expression is
  \<open>minute hour * * ((d+1) mod 7)\<close>, and \<open>-\<close> and \<open>*\<close> give no cron.
\<close>

theorem slash_separated_grid_raises:
  "is_valid_schedule_value ''8/8/8/8/8/8/8''
   \<and> convert_time_schedule_to_cron ''8/8/8/8/8/8/8'' 1 = Inl IndexError
   \<and> convert_time_schedule_to_cron ''8/8/8/8/8/8/8'' 0 = Inl ValueError
   \<and> is_valid_schedule_value ''-:30,8,8,8,8,8,8''
   \<and> convert_time_schedule_to_cron ''-:30,8,8,8,8,8,8'' 0 = Inl ValueError
   \<and> convert_time_schedule_to_cron ''8,8:30,-,*,08:05,23:55,0'' 1 = Inr (Some ''30 8 * * 2'')
   \<and> convert_time_schedule_to_cron ''8,8:30,-,*,08:05,23:55,0'' 2 = Inr None
   \<and> convert_time_schedule_to_cron ''8,8:30,-,*,08:05,23:55,0'' 3 = Inr None
   \<and> convert_time_schedule_to_cron ''8,8:30,-,*,08:05,23:55,0'' 6 = Inr (Some ''0 0 * * 0'')"
  by code_simp

end
